theory Spec2Isabelle
  imports Complex_Main
begin

section \<open>Errors (errors.go)\<close>

text \<open>
  \<^verbatim>\<open>APIError\<close> is the struct every HTTP error kind embeds. \<^verbatim>\<open>Details\<close> is a Go map
  that may be nil.
\<close>

record APIError =
  Status :: int
  Message :: string
  Code :: string
  Details :: "(string \<rightharpoonup> string) option"

text \<open>
  A Go \<^verbatim>\<open>error\<close> value, one constructor per dynamic type that the request pipeline
  produces. The nine HTTP kinds are the pointer types of errors.go; \<open>PlainAPIError\<close>
  is a bare \<^verbatim>\<open>*APIError\<close>. The two connection errors carry their message and cause.
  \<open>ContextCanceled\<close> and \<open>ContextDeadlineExceeded\<close> are the two values of
  \<^verbatim>\<open>ctx.Err()\<close>. \<open>Errorf p e\<close> is \<^verbatim>\<open>fmt.Errorf(".. %w", e)\<close>, where \<open>p\<close> is the
  formatted text in front of the wrapped operand \<open>e\<close> (nil when \<open>e = None\<close>).
\<close>

datatype go_error =
    PlainAPIError APIError
  | BadRequestError APIError
  | AuthenticationError APIError
  | PermissionDeniedError APIError
  | NotFoundError APIError
  | ConflictError APIError
  | UnprocessableEntityError APIError
  | RateLimitError APIError
  | InternalServerError APIError
  | APIConnectionError string "go_error option"
  | APIConnectionTimeoutError string "go_error option"
  | ContextCanceled
  | ContextDeadlineExceeded
  | Errorf string "go_error option"
  | OtherError string

text \<open>
  \<^verbatim>\<open>IsRetryableError\<close> of errors.go: a type switch on the dynamic type. The argument is
  an interface value, so nil (\<open>None\<close>) falls to the default case.
\<close>

fun IsRetryableError :: "go_error option \<Rightarrow> bool" where
  "IsRetryableError (Some (APIConnectionError m c)) = True"
| "IsRetryableError (Some (APIConnectionTimeoutError m c)) = True"
| "IsRetryableError (Some (ConflictError a)) = True"
| "IsRetryableError (Some (RateLimitError a)) = True"
| "IsRetryableError (Some (InternalServerError a)) = True"
| "IsRetryableError (Some (PlainAPIError apiErr)) = (Status apiErr = 408 \<or> Status apiErr \<ge> 500)"
| "IsRetryableError _ = False"

section \<open>Error responses (handleErrorResponse)\<close>

text \<open>
  The anonymous struct that \<^verbatim>\<open>handleErrorResponse\<close> decodes the body into. The decoding
  itself is \<^verbatim>\<open>json.Unmarshal\<close> of the standard library: its outcome (the zero value
  when the body is not a JSON object) is an argument of the model.
\<close>

record errorResp =
  resp_Error :: string
  resp_Code :: string
  resp_Details :: "(string \<rightharpoonup> string) option"

definition error_message :: "string \<Rightarrow> errorResp \<Rightarrow> string" where
  "error_message body er = (if resp_Error er = [] then body else resp_Error er)"

definition api_error :: "int \<Rightarrow> string \<Rightarrow> errorResp \<Rightarrow> APIError" where
  "api_error statusCode body er =
     \<lparr>Status = statusCode, Message = error_message body er,
      Code = resp_Code er, Details = resp_Details er\<rparr>"

definition handleErrorResponse :: "int \<Rightarrow> string \<Rightarrow> errorResp \<Rightarrow> go_error" where
  "handleErrorResponse statusCode body er =
     (if statusCode = 400 then BadRequestError (api_error statusCode body er)
      else if statusCode = 401 then AuthenticationError (api_error statusCode body er)
      else if statusCode = 403 then PermissionDeniedError (api_error statusCode body er)
      else if statusCode = 404 then NotFoundError (api_error statusCode body er)
      else if statusCode = 409 then ConflictError (api_error statusCode body er)
      else if statusCode = 422 then UnprocessableEntityError (api_error statusCode body er)
      else if statusCode = 429 then RateLimitError (api_error statusCode body er)
      else if statusCode \<ge> 500 then InternalServerError (api_error statusCode body er)
      else PlainAPIError (api_error statusCode body er))"

section \<open>Decimal rendering (strconv.Itoa, the \<^verbatim>\<open>%d\<close> verb)\<close>

definition digit_char :: "nat \<Rightarrow> char" where
  "digit_char d = ''0123456789'' ! d"

function nat_to_dec :: "nat \<Rightarrow> string" where
  "nat_to_dec n = (if n < 10 then [digit_char n] else nat_to_dec (n div 10) @ [digit_char (n mod 10)])"
  by pat_completeness auto
termination
  by (relation "measure id") auto

declare nat_to_dec.simps [simp del]

definition Itoa :: "int \<Rightarrow> string" where
  "Itoa i = (if i < 0 then CHR ''-'' # nat_to_dec (nat (- i)) else nat_to_dec (nat i))"

section \<open>Retry engine (RetryLogic)\<close>

text \<open>A \<^verbatim>\<open>time.Duration\<close> is a count of nanoseconds.\<close>

definition Millisecond :: int where
  "Millisecond = 1000000"

definition Second :: int where
  "Second = 1000 * Millisecond"

record RetryLogic =
  maxRetries :: int
  baseDelay :: int
  maxDelay :: int

definition NewRetryLogic :: "int \<Rightarrow> RetryLogic" where
  "NewRetryLogic n = \<lparr>maxRetries = n, baseDelay = 250 * Millisecond, maxDelay = 10 * Second\<rparr>"

text \<open>
  \<^verbatim>\<open>isRetryableError\<close> of the internal package, the check that \<^verbatim>\<open>Do\<close> consults. Its
  body is the single statement \<^verbatim>\<open>return false\<close>.
\<close>

definition isRetryableError :: "go_error \<Rightarrow> bool" where
  "isRetryableError err = False"

text \<open>
  \<^verbatim>\<open>calculateDelay\<close> multiplies in float64 and converts the product to the int64 behind
  \<^verbatim>\<open>time.Duration\<close>. The product \<^verbatim>\<open>float64(baseDelay) * math.Pow(2, float64(attempt))\<close>
  is a power of two times the base delay, so for the base delay of \<^verbatim>\<open>NewRetryLogic\<close>
  (\<open>2^7 * 5^9\<close> nanoseconds) it is exact as long as it is finite, and it is modelled as
  a rational. The conversion truncates toward zero. Where the truncated value lies
  outside int64 (which includes the product \<^verbatim>\<open>+Inf\<close>), Go leaves the result to the
  implementation: the amd64 instruction gives the minimum int64, arm64 saturates.
\<close>

datatype arch = AMD64 | ARM64

definition pow2 :: "int \<Rightarrow> rat" where
  "pow2 n = (if 0 \<le> n then 2 ^ nat n else 1 / 2 ^ nat (- n))"

definition float64_to_int64 :: "arch \<Rightarrow> rat \<Rightarrow> int" where
  "float64_to_int64 a x =
     (let t = (if 0 \<le> x then \<lfloor>x\<rfloor> else \<lceil>x\<rceil>)
      in if - (2 ^ 63) \<le> t \<and> t < 2 ^ 63 then t
         else (case a of AMD64 \<Rightarrow> - (2 ^ 63)
               | ARM64 \<Rightarrow> (if x < 0 then - (2 ^ 63) else 2 ^ 63 - 1)))"

definition calculateDelay :: "arch \<Rightarrow> RetryLogic \<Rightarrow> int \<Rightarrow> int" where
  "calculateDelay a r attempt =
     (let delay = float64_to_int64 a (of_int (baseDelay r) * pow2 attempt)
      in if delay > maxDelay r then maxDelay r else delay)"

text \<open>
  A \<^verbatim>\<open>context.Context\<close> as \<^verbatim>\<open>Do\<close> sees it: \<open>ctx_done ctx k\<close> says whether the
  \<open>k\<close>-th \<^verbatim>\<open>select\<close> that \<^verbatim>\<open>Do\<close> executes (counted from 0) finds \<^verbatim>\<open>ctx.Done()\<close> ready
  (for the \<^verbatim>\<open>select\<close> of the backoff sleep: ready before the timer fires), and
  \<open>ctx_err\<close> is what \<^verbatim>\<open>ctx.Err()\<close> then returns.
\<close>

record Context =
  ctx_done :: "nat \<Rightarrow> bool"
  ctx_err :: go_error

text \<open>
  What a call of \<^verbatim>\<open>Do\<close> leaves behind: the returned error (\<open>None\<close> is nil), the
  number of times the operation was invoked, the delays slept in full, and the state that
  the operation's side effects produced.
\<close>

record 's Do_result =
  ret :: "go_error option"
  calls :: nat
  slept :: "int list"
  world :: 's

text \<open>
  The loop of \<^verbatim>\<open>Do\<close>. The operation \<^verbatim>\<open>fn\<close> is a closure with side effects: a function
  from the state before the call to the returned error and the state after. \<open>k\<close> counts
  the \<^verbatim>\<open>select\<close> statements executed so far, \<open>n\<close> the invocations of \<^verbatim>\<open>fn\<close>, and
  \<open>ds\<close> collects the delays slept. The architecture matters to \<^verbatim>\<open>calculateDelay\<close> only.
  The counter \<^verbatim>\<open>attempt\<close> and \<^verbatim>\<open>maxRetries\<close> are Go \<^verbatim>\<open>int\<close>s, modelled as integers:
  the counter runs from 0 to \<open>maxRetries + 1\<close>, and only a budget of \<open>2^63 - 1\<close>
  retries would make it wrap around.
\<close>

function Do_loop ::
  "arch \<Rightarrow> RetryLogic \<Rightarrow> Context \<Rightarrow> ('s \<Rightarrow> go_error option \<times> 's) \<Rightarrow>
   int \<Rightarrow> go_error option \<Rightarrow> nat \<Rightarrow> nat \<Rightarrow> int list \<Rightarrow> 's \<Rightarrow> 's Do_result" where
  "Do_loop a r ctx fn attempt lastErr k n ds s =
     (if attempt \<le> maxRetries r then
        (if ctx_done ctx k then \<lparr>ret = Some (ctx_err ctx), calls = n, slept = ds, world = s\<rparr>
         else (case fn s of
             (None, s') \<Rightarrow> \<lparr>ret = None, calls = Suc n, slept = ds, world = s'\<rparr>
           | (Some err, s') \<Rightarrow>
               (if \<not> isRetryableError err
                then \<lparr>ret = Some err, calls = Suc n, slept = ds, world = s'\<rparr>
                else if attempt < maxRetries r then
                  (if ctx_done ctx (Suc k)
                   then \<lparr>ret = Some (ctx_err ctx), calls = Suc n, slept = ds, world = s'\<rparr>
                   else Do_loop a r ctx fn (attempt + 1) (Some err) (k + 2) (Suc n)
                          (ds @ [calculateDelay a r attempt]) s')
                else Do_loop a r ctx fn (attempt + 1) (Some err) (Suc k) (Suc n) ds s')))
      else \<lparr>ret = Some (Errorf (''request failed after '' @ Itoa (maxRetries r + 1) @ '' attempts: '')
                           lastErr),
            calls = n, slept = ds, world = s\<rparr>)"
  by pat_completeness auto
termination
  by (relation "measure (\<lambda>(a, r, ctx, fn, attempt, lastErr, k, n, ds, s). nat (maxRetries r + 1 - attempt))")
     auto

definition Do :: "arch \<Rightarrow> RetryLogic \<Rightarrow> Context \<Rightarrow> ('s \<Rightarrow> go_error option \<times> 's) \<Rightarrow> 's \<Rightarrow> 's Do_result" where
  "Do a r ctx fn s = Do_loop a r ctx fn 0 None 0 0 [] s"

section \<open>Client construction (New)\<close>

text \<open>
  \<^verbatim>\<open>*http.Client\<close> is a library type; the one field that \<^verbatim>\<open>New\<close> sets is kept.
\<close>

record http_Client =
  client_Timeout :: int

record ClientConfig =
  AccessToken :: string
  BaseURL :: string
  Timeout :: int
  MaxRetries :: int
  UserAgent :: string
  HTTPClient :: "http_Client option"

text \<open>A \<^verbatim>\<open>ClientOption\<close> is a function that updates the configuration it is given.\<close>

type_synonym ClientOption = "ClientConfig \<Rightarrow> ClientConfig"

definition WithAccessToken :: "string \<Rightarrow> ClientOption" where
  "WithAccessToken token c = c\<lparr>AccessToken := token\<rparr>"

definition WithBaseURL :: "string \<Rightarrow> ClientOption" where
  "WithBaseURL url c = c\<lparr>BaseURL := url\<rparr>"

definition WithTimeout :: "int \<Rightarrow> ClientOption" where
  "WithTimeout t c = c\<lparr>Timeout := t\<rparr>"

definition WithMaxRetries :: "int \<Rightarrow> ClientOption" where
  "WithMaxRetries n c = c\<lparr>MaxRetries := n\<rparr>"

definition WithUserAgent :: "string \<Rightarrow> ClientOption" where
  "WithUserAgent ua c = c\<lparr>UserAgent := ua\<rparr>"

definition WithHTTPClient :: "http_Client option \<Rightarrow> ClientOption" where
  "WithHTTPClient h c = c\<lparr>HTTPClient := h\<rparr>"

text \<open>
  The environment is what \<^verbatim>\<open>os.Getenv\<close> answers: the value of a variable, the empty
  string when it is not set.
\<close>

definition getEnvWithDefault :: "(string \<Rightarrow> string) \<Rightarrow> string \<Rightarrow> string \<Rightarrow> string" where
  "getEnvWithDefault env key defaultValue = (if env key = [] then defaultValue else env key)"

definition HasSuffix :: "string \<Rightarrow> string \<Rightarrow> bool" where
  "HasSuffix s suf = (length suf \<le> length s \<and> drop (length s - length suf) s = suf)"

datatype resource = Accounts | App | Chats | Contacts | Messages | Token

record BeeperDesktop =
  accessToken :: string
  baseURL :: string
  timeout :: int
  client_maxRetries :: int
  userAgent :: string
  httpClient :: http_Client
  retryLogic :: RetryLogic
  handles :: "resource list"

text \<open>
  What \<^verbatim>\<open>New\<close> constructs, in the order in which it does: the transport (when the
  options supplied none), the retry engine, and one handle per resource. \<^verbatim>\<open>New\<close>
  contains no network call on any path.
\<close>

datatype construction = TransportBuilt | RetryLogicBuilt | HandleBuilt resource

text \<open>
  The configuration that \<^verbatim>\<open>New\<close> starts from, and the one that results from applying the
  options in call order. The constant \<^verbatim>\<open>Version\<close> is declared outside the files at
  hand and is an argument.
\<close>

definition defaultConfig :: "string \<Rightarrow> (string \<Rightarrow> string) \<Rightarrow> ClientConfig" where
  "defaultConfig Version env =
     \<lparr>AccessToken = env ''BEEPER_ACCESS_TOKEN'',
      BaseURL = getEnvWithDefault env ''BEEPER_DESKTOP_BASE_URL'' ''http://localhost:23373'',
      Timeout = 30 * Second,
      MaxRetries = 2,
      UserAgent = ''beeper-desktop-api-go/'' @ Version,
      HTTPClient = None\<rparr>"

definition resolveConfig :: "string \<Rightarrow> (string \<Rightarrow> string) \<Rightarrow> ClientOption list \<Rightarrow> ClientConfig" where
  "resolveConfig Version env opts = fold (\<lambda>opt config. opt config) opts (defaultConfig Version env)"

definition New ::
  "string \<Rightarrow> (string \<Rightarrow> string) \<Rightarrow> ClientOption list \<Rightarrow> construction list \<times> (go_error + BeeperDesktop)" where
  "New Version env opts =
     (let config = resolveConfig Version env opts
      in if AccessToken config = []
         then ([], Inl (AuthenticationError
                  \<lparr>Status = 401, Message = ''access token is required'', Code = [], Details = None\<rparr>))
         else
           (let url = (if \<not> HasSuffix (BaseURL config) ''/'' then BaseURL config @ ''/'' else BaseURL config);
                (built, h) = (case HTTPClient config of
                                None \<Rightarrow> ([TransportBuilt], \<lparr>client_Timeout = Timeout config\<rparr>)
                              | Some c \<Rightarrow> ([], c))
            in (built @ [RetryLogicBuilt, HandleBuilt Accounts, HandleBuilt App, HandleBuilt Chats,
                         HandleBuilt Contacts, HandleBuilt Messages, HandleBuilt Token],
                Inr \<lparr>accessToken = AccessToken config,
                     baseURL = url,
                     timeout = Timeout config,
                     client_maxRetries = MaxRetries config,
                     userAgent = UserAgent config,
                     httpClient = h,
                     retryLogic = NewRetryLogic (MaxRetries config),
                     handles = [Accounts, App, Chats, Contacts, Messages, Token]\<rparr>)))"

section \<open>Query encoder (StructToQueryParams)\<close>

text \<open>
  The encoder inspects its argument through \<^verbatim>\<open>reflect\<close>. A value is modelled by its
  kind and content:
  \<^item> \<open>VString\<close>, \<open>VInt\<close> (an \<^verbatim>\<open>int\<close>), \<open>VInt64\<close>, \<open>VUint\<close>, \<open>VBool\<close>: the scalars;
  \<^item> \<open>VFloat\<close>: a float, given by the text that \<^verbatim>\<open>strconv.FormatFloat(f, 'f', -1, 64)\<close>
    renders for it;
  \<^item> \<open>VTime\<close>: a \<^verbatim>\<open>time.Time\<close> (kind Struct, with a \<^verbatim>\<open>String\<close> method), given by the
    text that \<^verbatim>\<open>String()\<close> returns for it;
  \<^item> \<open>VNilPtr st\<close>: a nil pointer, where \<open>st\<close> says whether the pointer type has the
    \<^verbatim>\<open>String\<close> method of its element type (\<^verbatim>\<open>*time.Time\<close> has, \<^verbatim>\<open>*string\<close> has not);
    \<open>VPtr x\<close>: a pointer to \<open>x\<close>;
  \<^item> \<open>VNilSlice\<close> and \<open>VSlice\<close>, \<open>VNilMap\<close> and \<open>VMap\<close>: slices and maps. A map is the
    list of its entries in the order in which the iteration visits them, each key given
    by the text that the \<^verbatim>\<open>%v\<close> verb renders for it;
  \<^item> \<open>VNilIface\<close> and \<open>VIface d\<close>: a slot of interface type (kind Interface), nil or
    holding the dynamic value \<open>d\<close>. The elements of a \<^verbatim>\<open>map[string]interface{}\<close> are
    such slots;
  \<^item> \<open>VStruct\<close>: a struct of another type (one without a \<^verbatim>\<open>String\<close> method, as the
    parameter structs of the resource layer are), as the list of its fields: whether the
    field is exported, its \<^verbatim>\<open>json\<close> tag, and its value.

  Values of the remaining kinds (arrays, channels, functions, complex numbers) occur in no
  parameter type of the repository and are left out.
\<close>

datatype gval =
    VString string
  | VInt int
  | VInt64 int
  | VUint nat
  | VFloat string
  | VBool bool
  | VTime string
  | VNilPtr bool
  | VPtr gval
  | VNilSlice
  | VSlice "gval list"
  | VNilMap
  | VMap "(string \<times> gval) list"
  | VNilIface
  | VIface gval
  | VStruct "(bool \<times> string \<times> gval) list"

text \<open>
  The type assertion \<^verbatim>\<open>v.Interface().(interface{ String() string })\<close> followed by the
  call of \<^verbatim>\<open>String()\<close>: \<open>None\<close> when the dynamic type has no such method,
  \<open>Some None\<close> when the call panics (the value method of \<^verbatim>\<open>time.Time\<close> called through a
  nil pointer), \<open>Some (Some s)\<close> when it returns \<open>s\<close>.
\<close>

fun stringer :: "gval \<Rightarrow> string option option" where
  "stringer (VTime s) = Some (Some s)"
| "stringer (VPtr (VTime s)) = Some (Some s)"
| "stringer (VNilPtr st) = (if st then Some None else None)"
| "stringer (VIface d) = stringer d"
| "stringer _ = None"

text \<open>
  \<^verbatim>\<open>fieldValueToString\<close>. The result \<open>None\<close> is a panic. \<open>kindToString\<close> is the
  \<^verbatim>\<open>switch v.Kind()\<close> after the pointer has been followed once, \<open>sliceToString\<close> the
  loop of its Slice case, with the index \<open>i\<close> and the text built so far. Every value
  that reaches the default case was obtained through exported fields, map entries and
  elements, so \<^verbatim>\<open>CanInterface\<close> holds there; a \<^verbatim>\<open>time.Time\<close> is caught by the first
  type assertion of that case.
\<close>

fun fieldValueToString :: "gval \<Rightarrow> string option"
  and kindToString :: "gval \<Rightarrow> string option"
  and sliceToString :: "nat \<Rightarrow> string \<Rightarrow> gval list \<Rightarrow> string option" where
  "fieldValueToString (VNilPtr st) = Some []"
| "fieldValueToString (VPtr x) = kindToString x"
| "fieldValueToString (VString s) = kindToString (VString s)"
| "fieldValueToString (VInt i) = kindToString (VInt i)"
| "fieldValueToString (VInt64 i) = kindToString (VInt64 i)"
| "fieldValueToString (VUint n) = kindToString (VUint n)"
| "fieldValueToString (VFloat s) = kindToString (VFloat s)"
| "fieldValueToString (VBool b) = kindToString (VBool b)"
| "fieldValueToString (VTime s) = kindToString (VTime s)"
| "fieldValueToString VNilSlice = kindToString VNilSlice"
| "fieldValueToString (VSlice xs) = kindToString (VSlice xs)"
| "fieldValueToString VNilMap = kindToString VNilMap"
| "fieldValueToString (VMap kvs) = kindToString (VMap kvs)"
| "fieldValueToString VNilIface = kindToString VNilIface"
| "fieldValueToString (VIface d) = kindToString (VIface d)"
| "fieldValueToString (VStruct fs) = kindToString (VStruct fs)"
| "kindToString (VString s) = Some s"
| "kindToString (VInt i) = Some (Itoa i)"
| "kindToString (VInt64 i) = Some (Itoa i)"
| "kindToString (VUint n) = Some (nat_to_dec n)"
| "kindToString (VFloat s) = Some s"
| "kindToString (VBool b) = Some (if b then ''true'' else ''false'')"
| "kindToString VNilSlice = Some []"
| "kindToString (VSlice xs) = (if length xs = 0 then Some [] else sliceToString 0 [] xs)"
| "kindToString (VTime s) = (case stringer (VTime s) of Some r \<Rightarrow> r | None \<Rightarrow> Some [])"
| "kindToString (VNilPtr st) = (case stringer (VNilPtr st) of Some r \<Rightarrow> r | None \<Rightarrow> Some [])"
| "kindToString (VPtr x) = (case stringer (VPtr x) of Some r \<Rightarrow> r | None \<Rightarrow> Some [])"
| "kindToString VNilMap = (case stringer VNilMap of Some r \<Rightarrow> r | None \<Rightarrow> Some [])"
| "kindToString (VMap kvs) = (case stringer (VMap kvs) of Some r \<Rightarrow> r | None \<Rightarrow> Some [])"
| "kindToString VNilIface = (case stringer VNilIface of Some r \<Rightarrow> r | None \<Rightarrow> Some [])"
| "kindToString (VIface d) = (case stringer (VIface d) of Some r \<Rightarrow> r | None \<Rightarrow> Some [])"
| "kindToString (VStruct fs) = (case stringer (VStruct fs) of Some r \<Rightarrow> r | None \<Rightarrow> Some [])"
| "sliceToString i result [] = Some result"
| "sliceToString i result (x # xs) =
     (case fieldValueToString x of
        None \<Rightarrow> None
      | Some s \<Rightarrow> sliceToString (Suc i) ((if i > 0 then result @ '','' else result) @ s) xs)"

text \<open>
  \<^verbatim>\<open>url.Values\<close> is a map from a key to the list of its values; \<^verbatim>\<open>Add\<close> appends to
  the list of the key, \<^verbatim>\<open>Set\<close> replaces it.
\<close>

type_synonym Values = "string \<rightharpoonup> string list"

definition Add :: "string \<Rightarrow> string \<Rightarrow> Values \<Rightarrow> Values" where
  "Add key v q = q(key \<mapsto> (case q key of None \<Rightarrow> [] | Some vs \<Rightarrow> vs) @ [v])"

definition Set_value :: "string \<Rightarrow> string \<Rightarrow> Values \<Rightarrow> Values" where
  "Set_value key v q = q(key \<mapsto> [v])"

text \<open>
  The part of \<^verbatim>\<open>reflect\<close> that the encoder uses: \<^verbatim>\<open>Kind\<close>, \<^verbatim>\<open>IsNil\<close> (called on
  the kinds Ptr, Map, Slice and Interface only), \<^verbatim>\<open>Elem\<close> (called on non-nil pointers
  only), the elements of a slice (\<^verbatim>\<open>Len\<close>, \<^verbatim>\<open>Index\<close>) and the entries of a map
  (\<^verbatim>\<open>MapKeys\<close> with \<^verbatim>\<open>MapIndex\<close>, \<^verbatim>\<open>MapRange\<close>).
\<close>

datatype reflect_Kind =
  KString | KInt | KInt64 | KUint | KFloat64 | KBool | KStruct | KPtr | KSlice | KMap | KInterface

fun Kind :: "gval \<Rightarrow> reflect_Kind" where
  "Kind (VString s) = KString"
| "Kind (VInt i) = KInt"
| "Kind (VInt64 i) = KInt64"
| "Kind (VUint n) = KUint"
| "Kind (VFloat s) = KFloat64"
| "Kind (VBool b) = KBool"
| "Kind (VTime s) = KStruct"
| "Kind (VNilPtr st) = KPtr"
| "Kind (VPtr x) = KPtr"
| "Kind VNilSlice = KSlice"
| "Kind (VSlice xs) = KSlice"
| "Kind VNilMap = KMap"
| "Kind (VMap kvs) = KMap"
| "Kind VNilIface = KInterface"
| "Kind (VIface d) = KInterface"
| "Kind (VStruct fs) = KStruct"

fun IsNil :: "gval \<Rightarrow> bool" where
  "IsNil (VNilPtr st) = True"
| "IsNil VNilMap = True"
| "IsNil VNilSlice = True"
| "IsNil VNilIface = True"
| "IsNil v = False"

fun Elem :: "gval \<Rightarrow> gval" where
  "Elem (VPtr x) = x"
| "Elem v = v"

fun elements :: "gval \<Rightarrow> gval list" where
  "elements (VSlice xs) = xs"
| "elements v = []"

fun entries :: "gval \<Rightarrow> (string \<times> gval) list" where
  "entries (VMap kvs) = kvs"
| "entries v = []"

fun fields :: "gval \<Rightarrow> (bool \<times> string \<times> gval) list" where
  "fields (VStruct fs) = fs"
| "fields v = []"

text \<open>\<^verbatim>\<open>strings.Join\<close>.\<close>

fun Join :: "string list \<Rightarrow> string \<Rightarrow> string" where
  "Join [] sep = []"
| "Join [x] sep = x"
| "Join (x # y # ys) sep = x @ sep @ Join (y # ys) sep"

text \<open>
  The map branch of \<^verbatim>\<open>StructToQueryParams\<close>: \<open>mapEntry\<close> is the body of its loop for one
  entry, \<open>mapParams\<close> the loop. \<open>None\<close> is a panic.
\<close>

definition mapEntry :: "string \<times> gval \<Rightarrow> Values \<Rightarrow> Values option" where
  "mapEntry kv params =
     (if Kind (snd kv) \<in> {KPtr, KMap, KSlice, KInterface} \<and> IsNil (snd kv) then Some params
      else (case fieldValueToString (snd kv) of
              None \<Rightarrow> None
            | Some valueStr \<Rightarrow>
                (if valueStr \<noteq> [] then Some (Add (fst kv) valueStr params) else Some params)))"

fun mapParams :: "(string \<times> gval) list \<Rightarrow> Values \<Rightarrow> Values option" where
  "mapParams [] params = Some params"
| "mapParams (kv # rest) params =
     (case mapEntry kv params of None \<Rightarrow> None | Some params' \<Rightarrow> mapParams rest params')"

text \<open>
  The struct branch. \<open>sliceValues\<close> is the loop that collects the non-empty renderings
  of the elements of a slice field. \<open>subMapParams\<close> is the loop over a map field, which
  adds its entries under dotted keys. \<open>structField\<close> is the body of the loop over the
  fields, for one field (exported or not, with its \<^verbatim>\<open>json\<close> tag), and \<open>structParams\<close>
  that loop. The name of a field is its tag up to the first comma.
\<close>

fun sliceValues :: "gval list \<Rightarrow> string list \<Rightarrow> string list option" where
  "sliceValues [] vals = Some vals"
| "sliceValues (elem # rest) vals =
     (case fieldValueToString elem of
        None \<Rightarrow> None
      | Some elemStr \<Rightarrow>
          (if elemStr = [] then sliceValues rest vals else sliceValues rest (vals @ [elemStr])))"

fun subMapParams :: "string \<Rightarrow> (string \<times> gval) list \<Rightarrow> Values \<Rightarrow> Values option" where
  "subMapParams name [] params = Some params"
| "subMapParams name ((subKey, subValue) # rest) params =
     (if Kind subValue \<in> {KPtr, KSlice, KMap, KInterface} \<and> IsNil subValue
      then subMapParams name rest params
      else (case fieldValueToString subValue of
              None \<Rightarrow> None
            | Some subValueStr \<Rightarrow>
                (if subValueStr = [] then subMapParams name rest params
                 else subMapParams name rest (Add (name @ ''.'' @ subKey) subValueStr params))))"

definition tagName :: "string \<Rightarrow> string" where
  "tagName tag = takeWhile (\<lambda>c. c \<noteq> CHR '','') tag"

definition structField :: "bool \<times> string \<times> gval \<Rightarrow> Values \<Rightarrow> Values option" where
  "structField f params =
     (let exported = fst f; tag = fst (snd f); field = snd (snd f)
      in if \<not> exported then Some params
         else if tag = [] \<or> tag = ''-'' then Some params
         else if Kind field = KPtr \<and> IsNil field then Some params
         else
           (let name = tagName tag;
                fieldValue = (if Kind field = KPtr then Elem field else field)
            in if Kind fieldValue = KSlice then
                 (if length (elements fieldValue) = 0 then Some params
                  else (case sliceValues (elements fieldValue) [] of
                          None \<Rightarrow> None
                        | Some vals \<Rightarrow>
                            (if length vals > 0 then Some (Add name (Join vals '','') params)
                             else Some params)))
               else if Kind fieldValue = KMap then subMapParams name (entries fieldValue) params
               else (case fieldValueToString field of
                       None \<Rightarrow> None
                     | Some v \<Rightarrow> (if v \<noteq> [] then Some (Add name v params) else Some params))))"

fun structParams :: "(bool \<times> string \<times> gval) list \<Rightarrow> Values \<Rightarrow> Values option" where
  "structParams [] params = Some params"
| "structParams (f # rest) params =
     (case structField f params of None \<Rightarrow> None | Some params' \<Rightarrow> structParams rest params')"

text \<open>
  \<^verbatim>\<open>StructToQueryParams\<close>: a nil pointer gives no parameters; otherwise the argument is
  followed through one pointer and encoded by the map branch or by the struct branch; any
  other kind gives no parameters. \<open>None\<close> is a panic.
\<close>

definition StructToQueryParams :: "gval \<Rightarrow> Values option" where
  "StructToQueryParams v =
     (if Kind v = KPtr \<and> IsNil v then Some Map.empty
      else
        (let val = (if Kind v = KPtr then Elem v else v)
         in if Kind val = KMap then mapParams (entries val) Map.empty
            else if Kind val \<noteq> KStruct then Some Map.empty
            else structParams (fields val) Map.empty))"

section \<open>The query of Messages.Search (resource layer)\<close>

text \<open>
  \<^verbatim>\<open>MessageSearchParams\<close>. A nil slice and an empty one behave alike here (only their
  length is read). The two \<^verbatim>\<open>*time.Time\<close> fields are given by the text that
  \<^verbatim>\<open>Format(time.RFC3339Nano)\<close> renders for them.
\<close>

record MessageSearchParams =
  sp_AccountIDs :: "string list"
  sp_ChatIDs :: "string list"
  sp_ChatType :: "string option"
  sp_Cursor :: "string option"
  sp_DateAfter :: "string option"
  sp_DateBefore :: "string option"
  sp_Direction :: "string option"
  sp_ExcludeLowPriority :: "bool option"
  sp_IncludeMuted :: "bool option"
  sp_Limit :: "int option"
  sp_MediaTypes :: "string list"
  sp_Query :: "string option"
  sp_SenderIDs :: "string list"

text \<open>
  The loop \<^verbatim>\<open>for idx, id := range ids { query.Add(name+"["+strconv.Itoa(idx)+"]", id) }\<close>,
  from index \<open>idx\<close> on, and the same under its guard \<^verbatim>\<open>len(ids) > 0\<close>.
\<close>

fun indexedLoop :: "string \<Rightarrow> nat \<Rightarrow> string list \<Rightarrow> Values \<Rightarrow> Values" where
  "indexedLoop name idx [] query = query"
| "indexedLoop name idx (x # xs) query =
     indexedLoop name (Suc idx) xs (Add (name @ ''['' @ Itoa (int idx) @ '']'') x query)"

definition addIndexed :: "string \<Rightarrow> string list \<Rightarrow> Values \<Rightarrow> Values" where
  "addIndexed name ids query = (if length ids > 0 then indexedLoop name 0 ids query else query)"

text \<open>\<^verbatim>\<open>if p != nil { query.Set(key, text of *p) }\<close>.\<close>

definition setIfPresent :: "string \<Rightarrow> string option \<Rightarrow> Values \<Rightarrow> Values" where
  "setIfPresent key p query = (case p of None \<Rightarrow> query | Some v \<Rightarrow> Set_value key v query)"

definition FormatBool :: "bool \<Rightarrow> string" where
  "FormatBool b = (if b then ''true'' else ''false'')"

text \<open>
  The \<^verbatim>\<open>url.Values\<close> that \<^verbatim>\<open>Messages.Search\<close> builds from its parameters, statement by
  statement, before it encodes them into the path.
\<close>

definition MessagesSearchQuery :: "MessageSearchParams \<Rightarrow> Values" where
  "MessagesSearchQuery p =
     (let q = Map.empty;
          q = addIndexed ''accountIDs'' (sp_AccountIDs p) q;
          q = addIndexed ''chatIDs'' (sp_ChatIDs p) q;
          q = setIfPresent ''chatType'' (sp_ChatType p) q;
          q = setIfPresent ''cursor'' (sp_Cursor p) q;
          q = setIfPresent ''dateAfter'' (sp_DateAfter p) q;
          q = setIfPresent ''dateBefore'' (sp_DateBefore p) q;
          q = setIfPresent ''direction'' (sp_Direction p) q;
          q = setIfPresent ''excludeLowPriority'' (map_option FormatBool (sp_ExcludeLowPriority p)) q;
          q = setIfPresent ''includeMuted'' (map_option FormatBool (sp_IncludeMuted p)) q;
          q = setIfPresent ''limit'' (map_option Itoa (sp_Limit p)) q;
          q = addIndexed ''mediaTypes'' (sp_MediaTypes p) q;
          q = setIfPresent ''query'' (sp_Query p) q;
          q = addIndexed ''senderIDs'' (sp_SenderIDs p) q
      in q)"

section \<open>Pagination iterator\<close>

record PaginationInfo =
  pg_Cursor :: "string option"
  pg_Limit :: "int option"
  pg_Direction :: "string option"
  HasMore :: bool

record 'a Cursor =
  Items :: "'a list"
  Pagination :: "PaginationInfo option"

text \<open>
  A request as the iterator issues it: method, path and query map. The query is a
  \<^verbatim>\<open>map[string]interface{}\<close>: a key is bound to a dynamic value (\<open>VNilIface\<close> for a nil
  interface) or absent.
\<close>

type_synonym request = "string \<times> string \<times> (string \<rightharpoonup> gval)"

text \<open>
  The \<^verbatim>\<open>RequestClient\<close> behind the interface is any implementation of
  \<^verbatim>\<open>DoRequestWithQuery\<close>: a function from the context, its own state and the request to
  the outcome (the error, or the decoded \<^verbatim>\<open>Cursor[T]\<close>) and its state afterwards. The
  iterator holds the state of its client together with the list of the requests it has
  made through it, which is how the model counts network calls. \<open>DoRequestWithQuery\<close>
  is the call \<^verbatim>\<open>it.client.DoRequestWithQuery(ctx, method, path, query, &response)\<close>
  through the interface: it runs the implementation and records the request.
\<close>

type_synonym ('a, 'w) RequestClient =
  "Context \<Rightarrow> 'w \<Rightarrow> request \<Rightarrow> (go_error + 'a Cursor) \<times> 'w"

record 'w client_handle =
  server :: 'w
  requests :: "request list"

definition DoRequestWithQuery ::
  "('a, 'w) RequestClient \<Rightarrow> Context \<Rightarrow> 'w client_handle \<Rightarrow> request \<Rightarrow>
   (go_error + 'a Cursor) \<times> 'w client_handle" where
  "DoRequestWithQuery rc ctx c req =
     (fst (rc ctx (server c) req),
      \<lparr>server = snd (rc ctx (server c) req), requests = requests c @ [req]\<rparr>)"

record ('a, 'w) Iterator =
  client :: "'w client_handle"
  path :: string
  params :: "string \<rightharpoonup> gval"
  cursor :: "string option"
  limit :: "int option"
  direction :: "string option"
  hasMore :: bool
  currentIdx :: nat
  currentPage :: "'a list"

text \<open>
  \<^verbatim>\<open>NewIterator\<close>. Each of the three type assertions yields the zero value when the key is
  absent or bound to a value of another dynamic type; the iterator keeps pointers to the
  three results, so none of its three pointers is nil at first.
\<close>

definition NewIterator :: "'w client_handle \<Rightarrow> string \<Rightarrow> (string \<rightharpoonup> gval) \<Rightarrow> ('a, 'w) Iterator" where
  "NewIterator c p ps =
     \<lparr>client = c, path = p, params = ps,
      cursor = Some (case ps ''cursor'' of Some (VString s) \<Rightarrow> s | _ \<Rightarrow> []),
      limit = Some (case ps ''limit'' of Some (VInt n) \<Rightarrow> n | _ \<Rightarrow> 0),
      direction = Some (case ps ''direction'' of Some (VString s) \<Rightarrow> s | _ \<Rightarrow> []),
      hasMore = True, currentIdx = 0, currentPage = []\<rparr>"

definition HasNext :: "('a, 'w) Iterator \<Rightarrow> bool" where
  "HasNext it = (currentIdx it < length (currentPage it) \<or> hasMore it)"

text \<open>The query map that \<^verbatim>\<open>fetchNextPage\<close> assembles.\<close>

definition fetchParams :: "('a, 'w) Iterator \<Rightarrow> (string \<rightharpoonup> gval)" where
  "fetchParams it =
     (let ps = params it;
          ps = (case cursor it of Some c \<Rightarrow> (if c \<noteq> [] then ps(''cursor'' \<mapsto> VString c) else ps) | None \<Rightarrow> ps);
          ps = (case limit it of Some l \<Rightarrow> (if l > 0 then ps(''limit'' \<mapsto> VInt l) else ps) | None \<Rightarrow> ps);
          ps = (case direction it of Some d \<Rightarrow> (if d \<noteq> [] then ps(''direction'' \<mapsto> VString d) else ps) | None \<Rightarrow> ps)
      in ps)"

text \<open>
  \<^verbatim>\<open>fetchNextPage\<close>: the returned error (\<open>None\<close> is nil) and the iterator afterwards.
\<close>

definition fetchNextPage ::
  "('a, 'w) RequestClient \<Rightarrow> Context \<Rightarrow> ('a, 'w) Iterator \<Rightarrow> go_error option \<times> ('a, 'w) Iterator" where
  "fetchNextPage rc ctx it =
     (case DoRequestWithQuery rc ctx (client it) (''GET'', path it, fetchParams it) of
        (Inl err, c) \<Rightarrow> (Some (Errorf ''failed to fetch page: '' (Some err)), it\<lparr>client := c\<rparr>)
      | (Inr response, c) \<Rightarrow>
          (None,
           (case Pagination response of
              Some pg \<Rightarrow>
                it\<lparr>client := c, currentPage := Items response, currentIdx := 0,
                   cursor := pg_Cursor pg, hasMore := HasMore pg\<rparr>
            | None \<Rightarrow>
                it\<lparr>client := c, currentPage := Items response, currentIdx := 0,
                   hasMore := False\<rparr>)))"

text \<open>
  \<^verbatim>\<open>Next\<close>: \<open>Inr (Some x)\<close> is a pointer to the item \<open>x\<close> with a nil error,
  \<open>Inr None\<close> is the pair of nils, \<open>Inl err\<close> an error.
\<close>

definition Next ::
  "('a, 'w) RequestClient \<Rightarrow> Context \<Rightarrow> ('a, 'w) Iterator \<Rightarrow> (go_error + 'a option) \<times> ('a, 'w) Iterator" where
  "Next rc ctx it =
     (if currentIdx it < length (currentPage it)
      then (Inr (Some (currentPage it ! currentIdx it)), it\<lparr>currentIdx := currentIdx it + 1\<rparr>)
      else if \<not> hasMore it then (Inr None, it)
      else (case fetchNextPage rc ctx it of
              (Some err, it') \<Rightarrow> (Inl err, it')
            | (None, it') \<Rightarrow>
                (if length (currentPage it') > 0
                 then (Inr (Some (currentPage it' ! 0)), it'\<lparr>currentIdx := 1\<rparr>)
                 else (Inr None, it'))))"

text \<open>
  \<^verbatim>\<open>ToSlice\<close>. Its loop runs as long as the client keeps announcing more pages, so it is
  a partial function: the result \<open>None\<close> is a loop that never ends.
\<close>

partial_function (option) ToSlice_loop ::
  "('a, 'w) RequestClient \<Rightarrow> Context \<Rightarrow> ('a, 'w) Iterator \<Rightarrow> 'a list \<Rightarrow>
   ((go_error + 'a list) \<times> ('a, 'w) Iterator) option" where
  "ToSlice_loop rc ctx it items =
     (if HasNext it then
        (case Next rc ctx it of
           (Inl err, it') \<Rightarrow> Some (Inl err, it')
         | (Inr None, it') \<Rightarrow> Some (Inr items, it')
         | (Inr (Some item), it') \<Rightarrow> ToSlice_loop rc ctx it' (items @ [item]))
      else Some (Inr items, it))"

definition ToSlice ::
  "('a, 'w) RequestClient \<Rightarrow> Context \<Rightarrow> ('a, 'w) Iterator \<Rightarrow>
   ((go_error + 'a list) \<times> ('a, 'w) Iterator) option" where
  "ToSlice rc ctx it = ToSlice_loop rc ctx it []"

text \<open>
  A scripted client, as a test double: its state is the list of the responses still to
  be served, one per call; a call beyond the script fails.
\<close>

definition scripted :: "('a, (go_error + 'a Cursor) list) RequestClient" where
  "scripted ctx rs req =
     (case rs of
        [] \<Rightarrow> (Inl (OtherError ''no scripted response left''), [])
      | r # rest \<Rightarrow> (r, rest))"

text \<open>A caller that polls \<^verbatim>\<open>Next\<close> \<open>n\<close> times and keeps what each call returned.\<close>

fun poll ::
  "('a, 'w) RequestClient \<Rightarrow> Context \<Rightarrow> nat \<Rightarrow> ('a, 'w) Iterator \<Rightarrow>
   (go_error + 'a option) list \<times> ('a, 'w) Iterator" where
  "poll rc ctx 0 it = ([], it)"
| "poll rc ctx (Suc n) it =
     (case Next rc ctx it of (r, it') \<Rightarrow> (case poll rc ctx n it' of (rs, it'') \<Rightarrow> (r # rs, it'')))"

section \<open>Notions used in the proofs\<close>

text \<open>
  The value of a decimal digit and of a decimal numeral, the inverse of \<open>nat_to_dec\<close>.
\<close>

definition digit_val :: "char \<Rightarrow> nat" where
  "digit_val c = length (takeWhile (\<lambda>d. d \<noteq> c) ''0123456789'')"

definition dec_val :: "string \<Rightarrow> nat" where
  "dec_val s = foldl (\<lambda>acc c. 10 * acc + digit_val c) 0 s"

text \<open>The invariant of the encoder's loops: no key is bound to an empty value.\<close>

definition nonempty_values :: "Values \<Rightarrow> bool" where
  "nonempty_values q = (\<forall>k vs. q k = Some vs \<longrightarrow> vs \<noteq> [] \<and> [] \<notin> set vs)"

section \<open>Auxiliary facts\<close>



subsection \<open>Decimal rendering is injective\<close>

lemma digit_val_char: "d < 10 \<Longrightarrow> digit_val (digit_char d) = d"
proof -
  assume "d < 10"
  then have "d \<in> {0, 1, 2, 3, 4, 5, 6, 7, 8, 9}"
    by auto
  then show ?thesis
    by (auto simp: digit_val_def digit_char_def)
qed

lemma dec_val_nat_to_dec: "dec_val (nat_to_dec n) = n"
proof (induction n rule: nat_to_dec.induct)
  case (1 n)
  show ?case
  proof (cases "n < 10")
    case True
    then show ?thesis
      by (subst nat_to_dec.simps) (simp add: dec_val_def digit_val_char)
  next
    case False
    then have "dec_val (nat_to_dec (n div 10)) = n div 10"
      using 1 by simp
    then show ?thesis
      using False by (subst nat_to_dec.simps) (simp add: dec_val_def digit_val_char)
  qed
qed

lemma nat_to_dec_inj: "nat_to_dec m = nat_to_dec n \<longleftrightarrow> m = n"
  by (metis dec_val_nat_to_dec)

lemma Itoa_int_inj: "Itoa (int m) = Itoa (int n) \<longleftrightarrow> m = n"
  by (simp add: Itoa_def nat_to_dec_inj)

subsection \<open>The indexed keys of Messages.Search\<close>

lemma indexedLoop_other:
  "(\<forall>j\<ge>idx. k \<noteq> name @ ''['' @ Itoa (int j) @ '']'') \<Longrightarrow> indexedLoop name idx xs q k = q k"
proof (induction xs arbitrary: idx q)
  case Nil
  then show ?case by simp
next
  case (Cons x xs)
  have "indexedLoop name (Suc idx) xs (Add (name @ ''['' @ Itoa (int idx) @ '']'') x q) k
        = (Add (name @ ''['' @ Itoa (int idx) @ '']'') x q) k"
    using Cons.prems by (intro Cons.IH) auto
  then show ?case
    using Cons.prems by (simp add: Add_def)
qed

lemma indexedLoop_same:
  "(\<forall>j\<ge>idx. q (name @ ''['' @ Itoa (int j) @ '']'') = None) \<Longrightarrow> i < length xs \<Longrightarrow>
   indexedLoop name idx xs q (name @ ''['' @ Itoa (int (idx + i)) @ '']'') = Some [xs ! i]"
proof (induction xs arbitrary: idx q i)
  case Nil
  then show ?case by simp
next
  case (Cons x xs)
  let ?q = "Add (name @ ''['' @ Itoa (int idx) @ '']'') x q"
  show ?case
  proof (cases i)
    case 0
    have "indexedLoop name (Suc idx) xs ?q (name @ ''['' @ Itoa (int idx) @ '']'')
          = ?q (name @ ''['' @ Itoa (int idx) @ '']'')"
      by (intro indexedLoop_other) (auto simp: Itoa_int_inj)
    then show ?thesis
      using 0 Cons.prems(1) by (simp add: Add_def)
  next
    case (Suc i')
    have "\<forall>j\<ge>Suc idx. ?q (name @ ''['' @ Itoa (int j) @ '']'') = None"
      using Cons.prems(1) by (auto simp: Add_def Itoa_int_inj)
    moreover have "i' < length xs"
      using Cons.prems(2) Suc by simp
    ultimately have "indexedLoop name (Suc idx) xs ?q (name @ ''['' @ Itoa (int (Suc idx + i')) @ '']'')
                     = Some [xs ! i']"
      by (rule Cons.IH)
    then show ?thesis
      using Suc by simp
  qed
qed

lemma addIndexed_other:
  "(\<forall>j. k \<noteq> name @ ''['' @ Itoa (int j) @ '']'') \<Longrightarrow> addIndexed name xs q k = q k"
  by (simp add: addIndexed_def indexedLoop_other)

lemma addIndexed_same:
  "(\<forall>j. q (name @ ''['' @ Itoa (int j) @ '']'') = None) \<Longrightarrow> i < length xs \<Longrightarrow>
   addIndexed name xs q (name @ ''['' @ Itoa (int i) @ '']'') = Some [xs ! i]"
  using indexedLoop_same [of 0 q name i xs] by (auto simp: addIndexed_def)

lemma setIfPresent_other: "k \<noteq> key \<Longrightarrow> setIfPresent key v q k = q k"
  by (simp add: setIfPresent_def Set_value_def split: option.splits)

subsection \<open>The encoder never binds an empty value\<close>

lemma sliceValues_strings:
  "sliceValues (map VString xs) vals = Some (vals @ filter (\<lambda>x. x \<noteq> []) xs)"
  by (induction xs arbitrary: vals) auto

lemma nonempty_values_empty: "nonempty_values Map.empty"
  by (simp add: nonempty_values_def)

lemma nonempty_values_Add: "nonempty_values q \<Longrightarrow> v \<noteq> [] \<Longrightarrow> nonempty_values (Add k v q)"
  by (auto simp: nonempty_values_def Add_def split: option.splits)

lemma nonempty_values_mapEntry:
  "nonempty_values q \<Longrightarrow> mapEntry kv q = Some q' \<Longrightarrow> nonempty_values q'"
  by (auto simp: mapEntry_def nonempty_values_Add split: if_splits option.splits)

lemma nonempty_values_mapParams:
  "nonempty_values q \<Longrightarrow> mapParams kvs q = Some q' \<Longrightarrow> nonempty_values q'"
  by (induction kvs arbitrary: q) (auto split: option.splits dest: nonempty_values_mapEntry)

lemma nonempty_values_subMapParams:
  "nonempty_values q \<Longrightarrow> subMapParams name kvs q = Some q' \<Longrightarrow> nonempty_values q'"
  by (induction name kvs q rule: subMapParams.induct)
     (auto split: option.splits if_splits simp: nonempty_values_Add)

lemma sliceValues_nonempty:
  "sliceValues xs vals = Some vals' \<Longrightarrow> [] \<notin> set vals \<Longrightarrow> [] \<notin> set vals'"
  by (induction xs vals rule: sliceValues.induct) (auto split: option.splits if_splits)

lemma Join_nonempty: "vals \<noteq> [] \<Longrightarrow> [] \<notin> set vals \<Longrightarrow> Join vals sep \<noteq> []"
  by (induction vals sep rule: Join.induct) auto

lemma nonempty_values_structField:
  "nonempty_values q \<Longrightarrow> structField f q = Some q' \<Longrightarrow> nonempty_values q'"
  by (auto simp: structField_def Let_def nonempty_values_Add Join_nonempty
      split: if_splits option.splits
      dest: nonempty_values_subMapParams sliceValues_nonempty
      intro!: nonempty_values_Add Join_nonempty)

lemma nonempty_values_structParams:
  "nonempty_values q \<Longrightarrow> structParams fs q = Some q' \<Longrightarrow> nonempty_values q'"
  by (induction fs arbitrary: q) (auto split: option.splits dest: nonempty_values_structField)

subsection \<open>Steps of the iterator\<close>

lemma Next_buffered:
  "currentIdx it < length (currentPage it) \<Longrightarrow>
   Next rc ctx it = (Inr (Some (currentPage it ! currentIdx it)), it\<lparr>currentIdx := Suc (currentIdx it)\<rparr>)"
  by (simp add: Next_def)

lemma Next_exhausted:
  "\<not> currentIdx it < length (currentPage it) \<Longrightarrow> \<not> hasMore it \<Longrightarrow> Next rc ctx it = (Inr None, it)"
  by (simp add: Next_def)

text \<open>
  Once no more pages are announced, polling returns what is left of the buffer and then
  the pair of nils, and changes nothing but the index.
\<close>

lemma poll_no_more_pages:
  "\<not> hasMore it \<Longrightarrow>
   poll rc ctx n it =
     (map (\<lambda>x. Inr (Some x)) (take n (drop (currentIdx it) (currentPage it)))
        @ replicate (n - (length (currentPage it) - currentIdx it)) (Inr None),
      it\<lparr>currentIdx := (if currentIdx it < length (currentPage it)
                          then min (currentIdx it + n) (length (currentPage it))
                          else currentIdx it)\<rparr>)"
proof (induction n arbitrary: it)
  case 0
  then show ?case by simp
next
  case (Suc n)
  show ?case
  proof (cases "currentIdx it < length (currentPage it)")
    case True
    let ?it' = "it\<lparr>currentIdx := Suc (currentIdx it)\<rparr>"
    have no_more: "\<not> hasMore ?it'"
      using Suc.prems by simp
    have split_buffer: "drop (currentIdx it) (currentPage it)
        = currentPage it ! currentIdx it # drop (Suc (currentIdx it)) (currentPage it)"
      using True by (simp add: Cons_nth_drop_Suc)
    show ?thesis
      using True Suc.IH [OF no_more]
      by (simp add: Next_buffered split_buffer Suc_diff_le min_def)
  next
    case False
    then show ?thesis
      using Suc.prems Suc.IH [OF Suc.prems] by (simp add: Next_exhausted)
  qed
qed

lemma fetchNextPage_no_pagination:
  assumes "rc ctx (server (client it)) (''GET'', path it, fetchParams it)
           = (Inr \<lparr>Items = xs, Pagination = None\<rparr>, w')"
  shows "fetchNextPage rc ctx it =
     (None, it\<lparr>client := \<lparr>server = w',
                           requests = requests (client it) @ [(''GET'', path it, fetchParams it)]\<rparr>,
               currentPage := xs, currentIdx := 0, hasMore := False\<rparr>)"
  using assms by (simp add: fetchNextPage_def DoRequestWithQuery_def)

text \<open>\<^verbatim>\<open>ToSlice\<close> first drains the buffer without a call.\<close>

lemma ToSlice_loop_drain:
  "currentIdx it \<le> length (currentPage it) \<Longrightarrow>
   ToSlice_loop rc ctx it items =
   ToSlice_loop rc ctx (it\<lparr>currentIdx := length (currentPage it)\<rparr>)
     (items @ drop (currentIdx it) (currentPage it))"
proof (induction "length (currentPage it) - currentIdx it" arbitrary: it items)
  case 0
  then have "currentIdx it = length (currentPage it)"
    by simp
  then have "it\<lparr>currentIdx := length (currentPage it)\<rparr> = it"
    by simp
  then show ?case
    using 0 by simp
next
  case (Suc d)
  then have lt: "currentIdx it < length (currentPage it)"
    by simp
  let ?it' = "it\<lparr>currentIdx := Suc (currentIdx it)\<rparr>"
  have step: "ToSlice_loop rc ctx it items
              = ToSlice_loop rc ctx ?it' (items @ [currentPage it ! currentIdx it])"
    using lt by (subst ToSlice_loop.simps) (simp add: HasNext_def Next_buffered)
  have "d = length (currentPage ?it') - currentIdx ?it'"
    using Suc(2) by simp
  moreover have "currentIdx ?it' \<le> length (currentPage ?it')"
    using lt by simp
  ultimately have "ToSlice_loop rc ctx ?it' (items @ [currentPage it ! currentIdx it]) =
      ToSlice_loop rc ctx (?it'\<lparr>currentIdx := length (currentPage ?it')\<rparr>)
        ((items @ [currentPage it ! currentIdx it]) @ drop (currentIdx ?it') (currentPage ?it'))"
    by (rule Suc(1))
  then show ?case
    using step lt by (simp add: Cons_nth_drop_Suc)
qed

text \<open>A fetch that brings a non-empty page with pagination data, and the last fetch.\<close>

lemma ToSlice_loop_fetch:
  assumes "\<not> currentIdx it < length (currentPage it)" and "hasMore it"
    and "rc ctx (server (client it)) (''GET'', path it, fetchParams it)
         = (Inr \<lparr>Items = xs, Pagination = Some pg\<rparr>, w')"
    and "xs \<noteq> []"
  shows "ToSlice_loop rc ctx it items =
     ToSlice_loop rc ctx
       (it\<lparr>client := \<lparr>server = w',
                       requests = requests (client it) @ [(''GET'', path it, fetchParams it)]\<rparr>,
           currentPage := xs, cursor := pg_Cursor pg, hasMore := HasMore pg,
           currentIdx := length xs\<rparr>)
       (items @ xs)"
proof -
  let ?it1 = "it\<lparr>client := \<lparr>server = w',
                              requests = requests (client it) @ [(''GET'', path it, fetchParams it)]\<rparr>,
                  currentPage := xs, currentIdx := 0, cursor := pg_Cursor pg, hasMore := HasMore pg\<rparr>"
  have fetched: "fetchNextPage rc ctx it = (None, ?it1)"
    using assms(3) by (simp add: fetchNextPage_def DoRequestWithQuery_def)
  have first: "Next rc ctx it = (Inr (Some (xs ! 0)), ?it1\<lparr>currentIdx := 1\<rparr>)"
    using assms(1,2,4) by (simp add: Next_def fetched)
  have "ToSlice_loop rc ctx it items = ToSlice_loop rc ctx (?it1\<lparr>currentIdx := 1\<rparr>) (items @ [xs ! 0])"
    using assms(2) by (subst ToSlice_loop.simps) (simp add: HasNext_def first)
  also have "\<dots> = ToSlice_loop rc ctx (?it1\<lparr>currentIdx := 1\<rparr>\<lparr>currentIdx := length xs\<rparr>)
                     ((items @ [xs ! 0]) @ drop 1 xs)"
    using assms(4) ToSlice_loop_drain [of "?it1\<lparr>currentIdx := 1\<rparr>" rc ctx "items @ [xs ! 0]"]
    by (cases xs) simp_all
  also have "(items @ [xs ! 0]) @ drop 1 xs = items @ xs"
    using assms(4) by (cases xs) simp_all
  finally show ?thesis
    by simp
qed

lemma ToSlice_loop_last:
  assumes "\<not> currentIdx it < length (currentPage it)" and "hasMore it"
    and "rc ctx (server (client it)) (''GET'', path it, fetchParams it)
         = (Inr \<lparr>Items = xs, Pagination = Some pg\<rparr>, w')"
    and "\<not> HasMore pg"
  shows "ToSlice_loop rc ctx it items =
     Some (Inr (items @ xs),
       it\<lparr>client := \<lparr>server = w',
                       requests = requests (client it) @ [(''GET'', path it, fetchParams it)]\<rparr>,
           currentPage := xs, cursor := pg_Cursor pg, hasMore := False,
           currentIdx := length xs\<rparr>)"
proof (cases "xs = []")
  case True
  have fetched: "fetchNextPage rc ctx it =
      (None, it\<lparr>client := \<lparr>server = w',
                            requests = requests (client it) @ [(''GET'', path it, fetchParams it)]\<rparr>,
                currentPage := xs, currentIdx := 0, cursor := pg_Cursor pg, hasMore := HasMore pg\<rparr>)"
    using assms(3) by (simp add: fetchNextPage_def DoRequestWithQuery_def)
  show ?thesis
    using assms(1,2,4) True by (subst ToSlice_loop.simps) (simp add: HasNext_def Next_def fetched)
next
  case False
  let ?it1 = "it\<lparr>client := \<lparr>server = w',
                              requests = requests (client it) @ [(''GET'', path it, fetchParams it)]\<rparr>,
                  currentPage := xs, cursor := pg_Cursor pg, hasMore := HasMore pg,
                  currentIdx := length xs\<rparr>"
  have fetched: "ToSlice_loop rc ctx it items = ToSlice_loop rc ctx ?it1 (items @ xs)"
    using ToSlice_loop_fetch [of it rc ctx xs pg w' items] assms(1,2,3) False by simp
  have stop: "ToSlice_loop rc ctx ?it1 (items @ xs) = Some (Inr (items @ xs), ?it1)"
    using assms(4) by (subst ToSlice_loop.simps) (simp add: HasNext_def)
  show ?thesis
    using fetched stop assms(4) by simp
qed

lemma scripted_fetch:
  assumes "server (client it) = Inr \<lparr>Items = xs, Pagination = Some pg\<rparr> # rest"
    and "\<not> currentIdx it < length (currentPage it)" and "hasMore it" and "xs \<noteq> []"
  shows "ToSlice_loop scripted ctx it items =
     ToSlice_loop scripted ctx
       (it\<lparr>client := \<lparr>server = rest,
                       requests = requests (client it) @ [(''GET'', path it, fetchParams it)]\<rparr>,
           currentPage := xs, cursor := pg_Cursor pg, hasMore := HasMore pg,
           currentIdx := length xs\<rparr>)
       (items @ xs)"
  using ToSlice_loop_fetch [of it scripted ctx xs pg rest items] assms
  by (simp add: scripted_def)

lemma scripted_last:
  assumes "server (client it) = Inr \<lparr>Items = xs, Pagination = Some pg\<rparr> # rest"
    and "\<not> currentIdx it < length (currentPage it)" and "hasMore it" and "\<not> HasMore pg"
  shows "ToSlice_loop scripted ctx it items =
     Some (Inr (items @ xs),
       it\<lparr>client := \<lparr>server = rest,
                       requests = requests (client it) @ [(''GET'', path it, fetchParams it)]\<rparr>,
           currentPage := xs, cursor := pg_Cursor pg, hasMore := False,
           currentIdx := length xs\<rparr>)"
  using ToSlice_loop_last [of it scripted ctx xs pg rest items] assms
  by (simp add: scripted_def)

section \<open>The retry engine\<close>

text \<open>
  C1. The claim: an operation that fails on every invocation with a retryable error of the
  taxonomy, under a context that is never cancelled, is invoked \<open>maxRetries + 1\<close> times
  and \<^verbatim>\<open>Do\<close> returns the wrapping "failed after N attempts" error. The code at
  \<open>maxRetries = 2\<close> with an operation that always returns a 409 \<^verbatim>\<open>ConflictError\<close>
  (retryable for \<^verbatim>\<open>IsRetryableError\<close>): the operation is invoked once, nothing is slept,
  and the conflict error itself is returned, because the \<^verbatim>\<open>isRetryableError\<close> that
  \<^verbatim>\<open>Do\<close> consults answers false for every error.
\<close>

theorem Do_retryable_error_single_call:
  "IsRetryableError (Some (ConflictError \<lparr>Status = 409, Message = ''conflict'', Code = [], Details = None\<rparr>))
   \<and> Do a (NewRetryLogic 2) \<lparr>ctx_done = (\<lambda>k. False), ctx_err = ContextCanceled\<rparr>
        (\<lambda>s. (Some (ConflictError \<lparr>Status = 409, Message = ''conflict'', Code = [], Details = None\<rparr>), Suc s))
        (0::nat)
     = \<lparr>ret = Some (ConflictError \<lparr>Status = 409, Message = ''conflict'', Code = [], Details = None\<rparr>),
        calls = 1, slept = [], world = 1\<rparr>"
  by (simp add: Do_def isRetryableError_def NewRetryLogic_def)








section \<open>The error classifier\<close>

text \<open>
  C3. For each status of 400, 401, 403, 404, 409, 422, 429, 500, 502, 503, every body and
  every decoded envelope, \<^verbatim>\<open>handleErrorResponse\<close> produces the kind of the taxonomy
  table, carrying the status, the message, the code and the details, and
  \<^verbatim>\<open>IsRetryableError\<close> on the produced error is true exactly for 409, 429 and the three
  5xx statuses.
\<close>

theorem handleErrorResponse_taxonomy:
  "handleErrorResponse 400 body er = BadRequestError (api_error 400 body er)
   \<and> handleErrorResponse 401 body er = AuthenticationError (api_error 401 body er)
   \<and> handleErrorResponse 403 body er = PermissionDeniedError (api_error 403 body er)
   \<and> handleErrorResponse 404 body er = NotFoundError (api_error 404 body er)
   \<and> handleErrorResponse 409 body er = ConflictError (api_error 409 body er)
   \<and> handleErrorResponse 422 body er = UnprocessableEntityError (api_error 422 body er)
   \<and> handleErrorResponse 429 body er = RateLimitError (api_error 429 body er)
   \<and> handleErrorResponse 500 body er = InternalServerError (api_error 500 body er)
   \<and> handleErrorResponse 502 body er = InternalServerError (api_error 502 body er)
   \<and> handleErrorResponse 503 body er = InternalServerError (api_error 503 body er)
   \<and> \<not> IsRetryableError (Some (handleErrorResponse 400 body er))
   \<and> \<not> IsRetryableError (Some (handleErrorResponse 401 body er))
   \<and> \<not> IsRetryableError (Some (handleErrorResponse 403 body er))
   \<and> \<not> IsRetryableError (Some (handleErrorResponse 404 body er))
   \<and> IsRetryableError (Some (handleErrorResponse 409 body er))
   \<and> \<not> IsRetryableError (Some (handleErrorResponse 422 body er))
   \<and> IsRetryableError (Some (handleErrorResponse 429 body er))
   \<and> IsRetryableError (Some (handleErrorResponse 500 body er))
   \<and> IsRetryableError (Some (handleErrorResponse 502 body er))
   \<and> IsRetryableError (Some (handleErrorResponse 503 body er))"
  by (simp add: handleErrorResponse_def)

section \<open>Client construction\<close>

text \<open>
  C7. When the access token that results from the environment and the options is empty,
  \<^verbatim>\<open>New\<close> fails with an \<^verbatim>\<open>AuthenticationError\<close> of status 401 and has constructed
  nothing: no transport, no retry engine, no resource handle (and \<^verbatim>\<open>New\<close> makes no
  network call at all). Whenever \<^verbatim>\<open>New\<close> does return a client, the resolved token and
  the client's token are not empty.
\<close>

theorem New_empty_access_token:
  "(AccessToken (resolveConfig ver env opts) = [] \<longrightarrow>
      New ver env opts =
        ([], Inl (AuthenticationError
               \<lparr>Status = 401, Message = ''access token is required'', Code = [], Details = None\<rparr>)))
   \<and> (\<forall>built c. New ver env opts = (built, Inr c) \<longrightarrow>
         AccessToken (resolveConfig ver env opts) \<noteq> [] \<and> accessToken c \<noteq> [])"
  by (auto simp add: New_def Let_def split: if_splits option.splits prod.splits)

theorem New_empty_access_token_witness:
  "AccessToken (resolveConfig ''1.0'' (\<lambda>k. []) [WithAccessToken ''t'', WithAccessToken []]) = []
   \<and> New ''1.0'' (\<lambda>k. []) [WithAccessToken ''t'', WithAccessToken []] =
        ([], Inl (AuthenticationError
               \<lparr>Status = 401, Message = ''access token is required'', Code = [], Details = None\<rparr>))
   \<and> New ''1.0'' (\<lambda>k. []) [WithAccessToken ''t'', WithMaxRetries 0] =
        ([TransportBuilt, RetryLogicBuilt, HandleBuilt Accounts, HandleBuilt App, HandleBuilt Chats,
          HandleBuilt Contacts, HandleBuilt Messages, HandleBuilt Token],
         Inr \<lparr>accessToken = ''t'', baseURL = ''http://localhost:23373/'', timeout = 30 * Second,
              client_maxRetries = 0, userAgent = ''beeper-desktop-api-go/1.0'',
              httpClient = \<lparr>client_Timeout = 30 * Second\<rparr>,
              retryLogic = NewRetryLogic 0,
              handles = [Accounts, App, Chats, Contacts, Messages, Token]\<rparr>)
   \<and> accessToken \<lparr>accessToken = ''t'', baseURL = ''http://localhost:23373/'', timeout = 30 * Second,
              client_maxRetries = 0, userAgent = ''beeper-desktop-api-go/1.0'',
              httpClient = \<lparr>client_Timeout = 30 * Second\<rparr>,
              retryLogic = NewRetryLogic 0,
              handles = [Accounts, App, Chats, Contacts, Messages, Token]\<rparr> \<noteq> []"
  using New_empty_access_token [of "''1.0''" "\<lambda>k. []" "[WithAccessToken ''t'', WithAccessToken []]"]
    New_empty_access_token [of "''1.0''" "\<lambda>k. []" "[WithAccessToken ''t'', WithMaxRetries 0]"]
  by (simp add: New_def resolveConfig_def defaultConfig_def WithAccessToken_def WithMaxRetries_def
      getEnvWithDefault_def HasSuffix_def)

section \<open>The query encoder\<close>

text \<open>
  C2 as stated fails. \<^verbatim>\<open>StructToQueryParams\<close> is the only entry point of the encoder
  and takes no flag. For the list \<open>["a", "b"]\<close> under the key \<open>field\<close> its struct
  branch and its map branch both give the single pair \<open>field=a,b\<close>, and no key
  \<open>field[0]\<close>; and for the non-empty list \<open>[""]\<close> the struct branch gives no key
  at all.
\<close>

theorem StructToQueryParams_comma_only_counterexample:
  "StructToQueryParams (VStruct [(True, ''field'', VSlice [VString ''a'', VString ''b''])])
     = Some [''field'' \<mapsto> [''a,b'']]
   \<and> StructToQueryParams (VMap [(''field'', VSlice [VString ''a'', VString ''b''])])
     = Some [''field'' \<mapsto> [''a,b'']]
   \<and> [''field'' \<mapsto> [''a,b'']] ''field[0]'' = None
   \<and> StructToQueryParams (VStruct [(True, ''field'', VSlice [VString ''''])]) = Some Map.empty"
  by (simp add: StructToQueryParams_def structField_def mapEntry_def Let_def Add_def tagName_def)

text \<open>
  C2, as the code has it. The encoder has one list encoding: a struct field with a usable
  tag that holds a list of strings yields one key, bound to the comma-joined non-empty
  elements of the list, and no key when no element is non-empty. The indexed-bracket
  encoding is produced in the resource layer, by \<^verbatim>\<open>Messages.Search\<close>: for every index
  \<open>i\<close> of its \<^verbatim>\<open>AccountIDs\<close> the key \<open>accountIDs[i]\<close> is bound to the \<open>i\<close>-th
  element alone.
\<close>

theorem list_encodings:
  "(tag \<noteq> [] \<longrightarrow> tag \<noteq> ''-'' \<longrightarrow>
      StructToQueryParams (VStruct [(True, tag, VSlice (map VString xs))]) =
        Some (if filter (\<lambda>x. x \<noteq> []) xs = [] then Map.empty
              else [tagName tag \<mapsto> [Join (filter (\<lambda>x. x \<noteq> []) xs) '','']]))
   \<and> (i < length (sp_AccountIDs p) \<longrightarrow>
        MessagesSearchQuery p (''accountIDs['' @ Itoa (int i) @ '']'') = Some [sp_AccountIDs p ! i])"
proof (intro conjI impI)
  assume "tag \<noteq> []" and "tag \<noteq> ''-''"
  then show "StructToQueryParams (VStruct [(True, tag, VSlice (map VString xs))]) =
        Some (if filter (\<lambda>x. x \<noteq> []) xs = [] then Map.empty
              else [tagName tag \<mapsto> [Join (filter (\<lambda>x. x \<noteq> []) xs) '','']])"
    by (auto simp add: StructToQueryParams_def structField_def Let_def sliceValues_strings Add_def)
next
  assume "i < length (sp_AccountIDs p)"
  then show "MessagesSearchQuery p (''accountIDs['' @ Itoa (int i) @ '']'') = Some [sp_AccountIDs p ! i]"
    unfolding MessagesSearchQuery_def Let_def
    by (simp add: setIfPresent_other addIndexed_other addIndexed_same [of _ "''accountIDs''", simplified])
qed

theorem list_encodings_witness:
  "''field,omitempty'' \<noteq> [] \<and> ''field,omitempty'' \<noteq> ''-''
   \<and> StructToQueryParams (VStruct [(True, ''field,omitempty'', VSlice (map VString [''a'', ''b'']))])
       = Some [''field'' \<mapsto> [''a,b'']]
   \<and> (1::nat) < length [''a'', ''b'']
   \<and> MessagesSearchQuery
        \<lparr>sp_AccountIDs = [''a'', ''b''], sp_ChatIDs = [], sp_ChatType = None, sp_Cursor = None,
         sp_DateAfter = None, sp_DateBefore = None, sp_Direction = None,
         sp_ExcludeLowPriority = None, sp_IncludeMuted = None, sp_Limit = Some 25,
         sp_MediaTypes = [], sp_Query = None, sp_SenderIDs = []\<rparr> ''accountIDs[1]'' = Some [''b'']"
  using list_encodings [of "''field,omitempty''" "[''a'', ''b'']" 1
      "\<lparr>sp_AccountIDs = [''a'', ''b''], sp_ChatIDs = [], sp_ChatType = None, sp_Cursor = None,
         sp_DateAfter = None, sp_DateBefore = None, sp_Direction = None,
         sp_ExcludeLowPriority = None, sp_IncludeMuted = None, sp_Limit = Some 25,
         sp_MediaTypes = [], sp_Query = None, sp_SenderIDs = []\<rparr>"]
  by (simp add: tagName_def Itoa_def nat_to_dec.simps digit_char_def)

text \<open>
  C10. Whatever parameter bag \<^verbatim>\<open>StructToQueryParams\<close> encodes (map or struct, through
  a pointer or not), no key of its result is bound to an empty value: the list of values
  of a key is not empty and contains no empty string. In particular a non-pointer string
  field that is empty and a map entry whose value is the empty string are left out.
\<close>

theorem StructToQueryParams_no_empty_value:
  "(\<forall>q k vs. StructToQueryParams v = Some q \<longrightarrow> q k = Some vs \<longrightarrow> vs \<noteq> [] \<and> [] \<notin> set vs)
   \<and> StructToQueryParams (VStruct [(True, tag, VString [])]) = Some Map.empty
   \<and> StructToQueryParams (VMap [(key, VString [])]) = Some Map.empty"
proof (intro conjI allI impI)
  fix q k vs
  assume enc: "StructToQueryParams v = Some q" and bound: "q k = Some vs"
  have "nonempty_values q"
    using enc
    by (auto simp: StructToQueryParams_def Let_def nonempty_values_empty split: if_splits
        dest: nonempty_values_mapParams [OF nonempty_values_empty]
          nonempty_values_structParams [OF nonempty_values_empty])
  with bound show "vs \<noteq> []" and "[] \<notin> set vs"
    by (simp_all add: nonempty_values_def)
next
  show "StructToQueryParams (VStruct [(True, tag, VString [])]) = Some Map.empty"
    by (simp add: StructToQueryParams_def structField_def Let_def)
next
  show "StructToQueryParams (VMap [(key, VString [])]) = Some Map.empty"
    by (simp add: StructToQueryParams_def mapEntry_def)
qed

theorem StructToQueryParams_no_empty_value_witness:
  "StructToQueryParams (VStruct [(True, ''query'', VString []), (True, ''limit,omitempty'', VPtr (VInt 25))])
     = Some [''limit'' \<mapsto> [''25'']]
   \<and> [''limit'' \<mapsto> [''25'']] ''limit'' = Some [''25'']
   \<and> [''25''] \<noteq> [] \<and> [] \<notin> set [''25'']"
  using StructToQueryParams_no_empty_value
    [of "VStruct [(True, ''query'', VString []), (True, ''limit,omitempty'', VPtr (VInt 25))]"]
  by (simp add: StructToQueryParams_def structField_def Let_def Add_def tagName_def Itoa_def
      nat_to_dec.simps digit_char_def)

section \<open>The pagination iterator\<close>

text \<open>
  C8. Let an iterator with an exhausted buffer and more pages expected fetch a page whose
  response has the items \<open>xs\<close> and no pagination object. Then polling \<^verbatim>\<open>Next\<close> any
  number \<open>n > 0\<close> of times returns the items of \<open>xs\<close> in order and after them only
  the pair of nils (no item, no error); the one request of that fetch is the only request
  made; and after the \<open>n\<close> calls \<^verbatim>\<open>HasNext\<close> is true exactly while items of \<open>xs\<close>
  are left, hence false once the buffer is exhausted.
\<close>

theorem page_without_pagination_ends_iteration:
  assumes "\<not> currentIdx it < length (currentPage it)" and "hasMore it"
    and "rc ctx (server (client it)) (''GET'', path it, fetchParams it)
         = (Inr \<lparr>Items = xs, Pagination = None\<rparr>, w')"
    and "0 < n"
  shows "fst (poll rc ctx n it)
           = map (\<lambda>x. Inr (Some x)) (take n xs) @ replicate (n - length xs) (Inr None)
     \<and> requests (client (snd (poll rc ctx n it)))
           = requests (client it) @ [(''GET'', path it, fetchParams it)]
     \<and> HasNext (snd (poll rc ctx n it)) = (n < length xs)"
proof -
  obtain m where n: "n = Suc m"
    using assms(4) by (cases n) auto
  let ?it1 = "it\<lparr>client := \<lparr>server = w',
                              requests = requests (client it) @ [(''GET'', path it, fetchParams it)]\<rparr>,
                  currentPage := xs, currentIdx := 0, hasMore := False\<rparr>"
  show ?thesis
  proof (cases xs)
    case Nil
    have "Next rc ctx it = (Inr None, ?it1)"
      using assms(1,2,3) Nil
      by (simp add: Next_def fetchNextPage_no_pagination [of rc ctx it xs w'])
    moreover have "\<not> hasMore ?it1"
      by simp
    ultimately show ?thesis
      using Nil n by (simp add: poll_no_more_pages HasNext_def)
  next
    case (Cons x xs')
    have "Next rc ctx it = (Inr (Some x), ?it1\<lparr>currentIdx := 1\<rparr>)"
      using assms(1,2,3) Cons
      by (simp add: Next_def fetchNextPage_no_pagination [of rc ctx it xs w'])
    moreover have "\<not> hasMore (?it1\<lparr>currentIdx := 1\<rparr>)"
      by simp
    ultimately show ?thesis
      using Cons n by (auto simp add: poll_no_more_pages HasNext_def min_def)
  qed
qed

theorem page_without_pagination_ends_iteration_witness:
  "\<not> currentIdx (NewIterator \<lparr>server = [Inr \<lparr>Items = [10, 20 :: nat], Pagination = None\<rparr>], requests = []\<rparr>
                   ''/v0/search-chats'' Map.empty :: (nat, (go_error + nat Cursor) list) Iterator)
       < length (currentPage (NewIterator \<lparr>server = [Inr \<lparr>Items = [10, 20 :: nat], Pagination = None\<rparr>], requests = []\<rparr>
                   ''/v0/search-chats'' Map.empty :: (nat, (go_error + nat Cursor) list) Iterator))
   \<and> hasMore (NewIterator \<lparr>server = [Inr \<lparr>Items = [10, 20 :: nat], Pagination = None\<rparr>], requests = []\<rparr>
                   ''/v0/search-chats'' Map.empty :: (nat, (go_error + nat Cursor) list) Iterator)
   \<and> scripted \<lparr>ctx_done = (\<lambda>k. False), ctx_err = ContextCanceled\<rparr>
        [Inr \<lparr>Items = [10, 20 :: nat], Pagination = None\<rparr>] (''GET'', ''/v0/search-chats'', Map.empty)
       = (Inr \<lparr>Items = [10, 20], Pagination = None\<rparr>, [])
   \<and> (0::nat) < 3
   \<and> fst (poll scripted \<lparr>ctx_done = (\<lambda>k. False), ctx_err = ContextCanceled\<rparr> 3
        (NewIterator \<lparr>server = [Inr \<lparr>Items = [10, 20 :: nat], Pagination = None\<rparr>], requests = []\<rparr>
           ''/v0/search-chats'' Map.empty))
       = [Inr (Some 10), Inr (Some 20), Inr None]
   \<and> requests (client (snd (poll scripted \<lparr>ctx_done = (\<lambda>k. False), ctx_err = ContextCanceled\<rparr> 3
        (NewIterator \<lparr>server = [Inr \<lparr>Items = [10, 20 :: nat], Pagination = None\<rparr>], requests = []\<rparr>
           ''/v0/search-chats'' Map.empty))))
       = [(''GET'', ''/v0/search-chats'', Map.empty)]
   \<and> \<not> HasNext (snd (poll scripted \<lparr>ctx_done = (\<lambda>k. False), ctx_err = ContextCanceled\<rparr> 3
        (NewIterator \<lparr>server = [Inr \<lparr>Items = [10, 20 :: nat], Pagination = None\<rparr>], requests = []\<rparr>
           ''/v0/search-chats'' Map.empty)))"
  using page_without_pagination_ends_iteration
    [of "NewIterator \<lparr>server = [Inr \<lparr>Items = [10, 20 :: nat], Pagination = None\<rparr>], requests = []\<rparr>
           ''/v0/search-chats'' Map.empty"
        scripted "\<lparr>ctx_done = (\<lambda>k. False), ctx_err = ContextCanceled\<rparr>" "[10, 20]" "[]" 3]
  by (simp add: NewIterator_def scripted_def fetchParams_def)

text \<open>
  C9 as stated fails when one of the first two pages is empty. Here the first page has
  no items and \<open>has_more = true\<close>: \<^verbatim>\<open>Next\<close> returns the pair of nils after the first
  fetch, \<^verbatim>\<open>ToSlice\<close> stops there and returns no items after one request, and the items
  of the second and third page are never fetched.
\<close>

theorem ToSlice_empty_first_page_counterexample:
  "ToSlice scripted \<lparr>ctx_done = (\<lambda>k. False), ctx_err = ContextCanceled\<rparr>
     (NewIterator
        \<lparr>server = [Inr \<lparr>Items = [], Pagination = Some \<lparr>pg_Cursor = Some ''c1'', pg_Limit = None, pg_Direction = None, HasMore = True\<rparr>\<rparr>,
                   Inr \<lparr>Items = [2::nat], Pagination = Some \<lparr>pg_Cursor = Some ''c2'', pg_Limit = None, pg_Direction = None, HasMore = True\<rparr>\<rparr>,
                   Inr \<lparr>Items = [3], Pagination = Some \<lparr>pg_Cursor = None, pg_Limit = None, pg_Direction = None, HasMore = False\<rparr>\<rparr>],
         requests = []\<rparr>
        ''/v0/search-chats'' Map.empty)
   = Some (Inr [],
       \<lparr>client = \<lparr>server = [Inr \<lparr>Items = [2], Pagination = Some \<lparr>pg_Cursor = Some ''c2'', pg_Limit = None, pg_Direction = None, HasMore = True\<rparr>\<rparr>,
                   Inr \<lparr>Items = [3], Pagination = Some \<lparr>pg_Cursor = None, pg_Limit = None, pg_Direction = None, HasMore = False\<rparr>\<rparr>],
                  requests = [(''GET'', ''/v0/search-chats'', Map.empty)]\<rparr>,
        path = ''/v0/search-chats'', params = Map.empty, cursor = Some ''c1'', limit = Some 0,
        direction = Some [], hasMore = True, currentIdx = 0, currentPage = []\<rparr>)"
  unfolding ToSlice_def
  by (subst ToSlice_loop.simps)
     (simp add: HasNext_def Next_def fetchNextPage_def DoRequestWithQuery_def NewIterator_def
        scripted_def fetchParams_def)

text \<open>
  C9, as the code has it. With a script of three pages, the first two not empty and with
  \<open>has_more = true\<close>, the third with \<open>has_more = false\<close>, \<^verbatim>\<open>ToSlice\<close> on a new
  iterator returns the items of the three pages in order, after exactly three requests,
  with the script used up and \<^verbatim>\<open>HasNext\<close> false.
\<close>

theorem ToSlice_three_pages:
  assumes "HasMore pg1" and "HasMore pg2" and "\<not> HasMore pg3"
    and "xs1 \<noteq> []" and "xs2 \<noteq> []"
  shows "\<exists>it'. ToSlice scripted ctx
            (NewIterator \<lparr>server = [Inr \<lparr>Items = xs1, Pagination = Some pg1\<rparr>,
                                      Inr \<lparr>Items = xs2, Pagination = Some pg2\<rparr>,
                                      Inr \<lparr>Items = xs3, Pagination = Some pg3\<rparr>], requests = []\<rparr> p ps)
          = Some (Inr (xs1 @ xs2 @ xs3), it')
        \<and> length (requests (client it')) = 3 \<and> server (client it') = [] \<and> \<not> HasNext it'"
proof -
  define r2 where "r2 = (Inr \<lparr>Items = xs2, Pagination = Some pg2\<rparr> :: go_error + 'a Cursor)"
  define r3 where "r3 = (Inr \<lparr>Items = xs3, Pagination = Some pg3\<rparr> :: go_error + 'a Cursor)"
  define it0 where "it0 = (NewIterator \<lparr>server = [Inr \<lparr>Items = xs1, Pagination = Some pg1\<rparr>, r2, r3],
      requests = []\<rparr> p ps :: ('a, (go_error + 'a Cursor) list) Iterator)"
  define it1 where "it1 = it0\<lparr>client := \<lparr>server = [r2, r3],
        requests = requests (client it0) @ [(''GET'', path it0, fetchParams it0)]\<rparr>,
      currentPage := xs1, cursor := pg_Cursor pg1, hasMore := HasMore pg1, currentIdx := length xs1\<rparr>"
  define it2 where "it2 = it1\<lparr>client := \<lparr>server = [r3],
        requests = requests (client it1) @ [(''GET'', path it1, fetchParams it1)]\<rparr>,
      currentPage := xs2, cursor := pg_Cursor pg2, hasMore := HasMore pg2, currentIdx := length xs2\<rparr>"
  define it3 where "it3 = it2\<lparr>client := \<lparr>server = [],
        requests = requests (client it2) @ [(''GET'', path it2, fetchParams it2)]\<rparr>,
      currentPage := xs3, cursor := pg_Cursor pg3, hasMore := False, currentIdx := length xs3\<rparr>"
  have first: "ToSlice_loop scripted ctx it0 [] = ToSlice_loop scripted ctx it1 ([] @ xs1)"
    unfolding it1_def
    by (rule scripted_fetch) (simp_all add: it0_def NewIterator_def assms)
  have second: "ToSlice_loop scripted ctx it1 ([] @ xs1) = ToSlice_loop scripted ctx it2 (([] @ xs1) @ xs2)"
    unfolding it2_def
    by (rule scripted_fetch) (simp_all add: it1_def r2_def assms)
  have third: "ToSlice_loop scripted ctx it2 (([] @ xs1) @ xs2)
               = Some (Inr ((([] @ xs1) @ xs2) @ xs3), it3)"
    unfolding it3_def
    by (rule scripted_last) (simp_all add: it2_def r3_def assms)
  have "ToSlice scripted ctx it0 = Some (Inr (xs1 @ xs2 @ xs3), it3)"
    using first second third by (simp add: ToSlice_def)
  moreover have "length (requests (client it3)) = 3 \<and> server (client it3) = [] \<and> \<not> HasNext it3"
    by (simp add: it3_def it2_def it1_def it0_def NewIterator_def HasNext_def)
  ultimately show ?thesis
    unfolding it0_def r2_def r3_def by blast
qed

theorem ToSlice_three_pages_witness:
  "HasMore \<lparr>pg_Cursor = Some ''c1'', pg_Limit = None, pg_Direction = None, HasMore = True\<rparr>
   \<and> HasMore \<lparr>pg_Cursor = Some ''c2'', pg_Limit = None, pg_Direction = None, HasMore = True\<rparr>
   \<and> \<not> HasMore \<lparr>pg_Cursor = None, pg_Limit = None, pg_Direction = None, HasMore = False\<rparr>
   \<and> [1::nat, 2] \<noteq> [] \<and> [3::nat] \<noteq> []
   \<and> (\<exists>it'. ToSlice scripted \<lparr>ctx_done = (\<lambda>k. False), ctx_err = ContextCanceled\<rparr>
        (NewIterator
          \<lparr>server = [Inr \<lparr>Items = [1::nat, 2], Pagination = Some \<lparr>pg_Cursor = Some ''c1'', pg_Limit = None, pg_Direction = None, HasMore = True\<rparr>\<rparr>,
                     Inr \<lparr>Items = [3], Pagination = Some \<lparr>pg_Cursor = Some ''c2'', pg_Limit = None, pg_Direction = None, HasMore = True\<rparr>\<rparr>,
                     Inr \<lparr>Items = [4, 5], Pagination = Some \<lparr>pg_Cursor = None, pg_Limit = None, pg_Direction = None, HasMore = False\<rparr>\<rparr>],
           requests = []\<rparr>
          ''/v0/search-chats'' Map.empty)
        = Some (Inr [1, 2, 3, 4, 5], it')
      \<and> length (requests (client it')) = 3 \<and> server (client it') = [] \<and> \<not> HasNext it')"
  using ToSlice_three_pages
    [of "\<lparr>pg_Cursor = Some ''c1'', pg_Limit = None, pg_Direction = None, HasMore = True\<rparr>"
        "\<lparr>pg_Cursor = Some ''c2'', pg_Limit = None, pg_Direction = None, HasMore = True\<rparr>"
        "\<lparr>pg_Cursor = None, pg_Limit = None, pg_Direction = None, HasMore = False\<rparr>"
        "[1::nat, 2]" "[3]" "\<lparr>ctx_done = (\<lambda>k. False), ctx_err = ContextCanceled\<rparr>" "[4, 5]"
        "''/v0/search-chats''" Map.empty]
  by simp

end
